theory Spec2Isabelle
  imports Main "HOL-Library.Sublist" "HOL-Library.Multiset"
begin

section \<open>The question-answering pipeline of utils/chatbot.py\<close>

text \<open>
  The module is sequential glue over three outside parties: the process environment
  (\<^verbatim>\<open>os.getenv\<close>), the Chroma vector store (\<^verbatim>\<open>chromadb\<close>) and the Gemini
  service (\<^verbatim>\<open>google.generativeai\<close>). Their answers are fields of a record; every
  call to one of them is written to a log, in the order the code makes the calls, so
  that what was called, how often and before what is a property of the returned log.
  A Python exception is the \<open>Inl\<close> branch of the result.
\<close>

subsection \<open>Errors and events\<close>

datatype error =
    ValueError string
  | KeyError string
  | IndexError
  | LibraryError string

datatype event =
    EvGetenv string
  | EvConfigure string
  | EvEmbedContent string "string list" string string
  | EvPersistentClient string
  | EvGetCollection string
  | EvQuery "string list" nat
  | EvGenerateContent string string

text \<open>The two calls that go over the network: the embedding and the generation request.\<close>

fun is_network :: "event \<Rightarrow> bool" where
  "is_network (EvEmbedContent model content task_type title) = True"
| "is_network (EvGenerateContent model prompt) = True"
| "is_network ev = False"

subsection \<open>The outside parties\<close>

text \<open>
  \<open>nearest\<close> is the store's similarity search: for a batch of query vectors and a
  number of results it reports, per query vector, the documents it ranks first.
\<close>

record 'v collection_store =
  nearest :: "'v list \<Rightarrow> nat \<Rightarrow> error + string list list"

record 'v chroma_client =
  get_collection :: "string \<Rightarrow> error + 'v collection_store"

text \<open>
  \<open>embed_content\<close> takes the configured key, the model, the content, the task type and
  the title, and is the \<^verbatim>\<open>"embedding"\<close> entry of the reply;
  \<open>generate_content\<close> takes the configured key, the model name and the prompt, and is
  the \<^verbatim>\<open>.text\<close> of the reply. \<^verbatim>\<open>genai.configure(api_key=k)\<close> directly
  precedes each of the two calls, so the key they run under is the \<open>k\<close> just read.
\<close>

record 'v world =
  getenv :: "string \<Rightarrow> string option"
  persistent_client :: "string \<Rightarrow> error + 'v chroma_client"
  embed_content :: "string \<Rightarrow> string \<Rightarrow> string list \<Rightarrow> string \<Rightarrow> string \<Rightarrow> error + 'v list"
  generate_content :: "string \<Rightarrow> string \<Rightarrow> string \<Rightarrow> error + string"

subsection \<open>Computations that log their calls and may raise\<close>

type_synonym 'a io = "event list \<Rightarrow> (error + 'a) \<times> event list"

definition io_return :: "'a \<Rightarrow> 'a io" where
  "io_return x = (\<lambda>log. (Inr x, log))"

definition io_raise :: "error \<Rightarrow> 'a io" where
  "io_raise e = (\<lambda>log. (Inl e, log))"

definition io_call :: "event \<Rightarrow> error + 'a \<Rightarrow> 'a io" where
  "io_call ev outcome = (\<lambda>log. (outcome, log @ [ev]))"

definition io_bind :: "'a io \<Rightarrow> ('a \<Rightarrow> 'b io) \<Rightarrow> 'b io" where
  "io_bind m f = (\<lambda>log. case m log of
       (Inl e, log') \<Rightarrow> (Inl e, log')
     | (Inr x, log') \<Rightarrow> f x log')"

definition io_pure :: "error + 'a \<Rightarrow> 'a io" where
  "io_pure r = (\<lambda>log. (r, log))"

subsection \<open>GeminiEmbeddingFunction.__call__\<close>

definition missing_key_message :: string where
  "missing_key_message =
     ''Gemini API Key not provided. Please provide GEMINI_API_KEY as an environment variable''"

definition GeminiEmbeddingFunction_call :: "'v world \<Rightarrow> string list \<Rightarrow> ('v list) io" where
  "GeminiEmbeddingFunction_call w input =
     io_bind (io_call (EvGetenv ''GEMINI_API_KEY'') (Inr (getenv w ''GEMINI_API_KEY'')))
       (\<lambda>gemini_api_key.
          case gemini_api_key of
            None \<Rightarrow> io_raise (ValueError missing_key_message)
          | Some k \<Rightarrow>
              if k = [] then io_raise (ValueError missing_key_message)
              else io_bind (io_call (EvConfigure k) (Inr ()))
                (\<lambda>_. io_call
                   (EvEmbedContent ''models/embedding-001'' input ''retrieval_document'' ''Custom query'')
                   (embed_content w k ''models/embedding-001'' input ''retrieval_document'' ''Custom query'')))"

subsection \<open>load_chroma_collection\<close>

text \<open>
  The handle that \<^verbatim>\<open>get_collection\<close> returns is the stored collection bound to the
  embedding function it was given; the module has one embedding function.
\<close>

datatype embedding_function = GeminiEmbeddingFunction

record 'v collection =
  store :: "'v collection_store"
  bound_embedding_function :: embedding_function

definition load_chroma_collection :: "'v world \<Rightarrow> string \<Rightarrow> string \<Rightarrow> ('v collection) io" where
  "load_chroma_collection w path name =
     io_bind (io_call (EvPersistentClient path) (persistent_client w path))
       (\<lambda>chroma_client.
          io_bind (io_call (EvGetCollection name) (get_collection chroma_client name))
            (\<lambda>st. io_return \<lparr>store = st, bound_embedding_function = GeminiEmbeddingFunction\<rparr>))"

subsection \<open>get_relevant_passage\<close>

record query_result =
  documents :: "string list list"

text \<open>
  \<^verbatim>\<open>db.query(query_texts=..., n_results=...)\<close> of the store library: the query texts
  are embedded with the handle's embedding function, then the store searches.
\<close>

fun call_embedding_function :: "'v world \<Rightarrow> embedding_function \<Rightarrow> string list \<Rightarrow> ('v list) io" where
  "call_embedding_function w GeminiEmbeddingFunction input = GeminiEmbeddingFunction_call w input"

definition collection_query :: "'v world \<Rightarrow> 'v collection \<Rightarrow> string list \<Rightarrow> nat \<Rightarrow> query_result io" where
  "collection_query w db query_texts n_results =
     io_bind (io_call (EvQuery query_texts n_results) (Inr ()))
       (\<lambda>_. io_bind (call_embedding_function w (bound_embedding_function db) query_texts)
          (\<lambda>embeddings. io_pure
             (case nearest (store db) embeddings n_results of
                Inl e \<Rightarrow> Inl e
              | Inr ds \<Rightarrow> Inr \<lparr>documents = ds\<rparr>)))"

text \<open>\<^verbatim>\<open>[...]["documents"][0]\<close>: element 0 of an empty list raises IndexError.\<close>

definition get_relevant_passage :: "'v world \<Rightarrow> string \<Rightarrow> 'v collection \<Rightarrow> nat \<Rightarrow> (string list) io" where
  "get_relevant_passage w query db n_results =
     io_bind (collection_query w db [query] n_results)
       (\<lambda>r. case documents r of
               [] \<Rightarrow> io_raise IndexError
             | d # _ \<Rightarrow> io_return d)"

subsection \<open>make_rag_prompt\<close>

text \<open>
  \<^verbatim>\<open>RAG_PROMPT_CONSTANT\<close> is defined in utils/constants.py and is a parameter here:
  the format string, split into its literal text and its replacement fields
  \<^verbatim>\<open>{name}\<close> (plain fields, without conversion or format specification).
  \<^verbatim>\<open>str.format\<close> goes through it from left to right and raises KeyError at the
  first field that is not among the keyword arguments.
\<close>

datatype piece = Lit string | Field string

type_synonym template = "piece list"

fun str_format :: "template \<Rightarrow> (string \<times> string) list \<Rightarrow> error + string" where
  "str_format [] kwargs = Inr []"
| "str_format (Lit s # ps) kwargs =
     (case str_format ps kwargs of Inl e \<Rightarrow> Inl e | Inr r \<Rightarrow> Inr (s @ r))"
| "str_format (Field n # ps) kwargs =
     (case map_of kwargs n of
        None \<Rightarrow> Inl (KeyError n)
      | Some v \<Rightarrow> (case str_format ps kwargs of Inl e \<Rightarrow> Inl e | Inr r \<Rightarrow> Inr (v @ r)))"

text \<open>\<^verbatim>\<open>s.replace(old, new)\<close> for a pattern \<open>old\<close> of one character.\<close>

definition replace :: "char \<Rightarrow> string \<Rightarrow> string \<Rightarrow> string" where
  "replace old new s = concat (map (\<lambda>c. if c = old then new else [c]) s)"

text \<open>How \<^verbatim>\<open>format\<close> renders the location argument: \<^verbatim>\<open>None\<close> as its name.\<close>

fun py_str :: "string option \<Rightarrow> string" where
  "py_str None = ''None''"
| "py_str (Some s) = s"

definition escaped :: "string \<Rightarrow> string" where
  "escaped relevant_passage =
     replace (CHR 0x0A) '' '' (replace (CHR 0x22) [] (replace (CHR 0x27) [] relevant_passage))"

definition make_rag_prompt :: "template \<Rightarrow> string \<Rightarrow> string \<Rightarrow> string option \<Rightarrow> error + string" where
  "make_rag_prompt RAG_PROMPT_CONSTANT query relevant_passage current_location =
     str_format RAG_PROMPT_CONSTANT
       [(''query'', query),
        (''relevant_passage'', escaped relevant_passage),
        (''current_location'', py_str current_location)]"

subsection \<open>generate_answer and ask_question\<close>

definition private_generate_answer :: "'v world \<Rightarrow> string \<Rightarrow> string io" where
  "private_generate_answer w prompt =
     io_bind (io_call (EvGetenv ''GEMINI_API_KEY'') (Inr (getenv w ''GEMINI_API_KEY'')))
       (\<lambda>gemini_api_key.
          case gemini_api_key of
            None \<Rightarrow> io_raise (ValueError missing_key_message)
          | Some k \<Rightarrow>
              if k = [] then io_raise (ValueError missing_key_message)
              else io_bind (io_call (EvConfigure k) (Inr ()))
                (\<lambda>_. io_call (EvGenerateContent ''gemini-1.5-flash'' prompt)
                        (generate_content w k ''gemini-1.5-flash'' prompt)))"

definition generate_answer ::
  "'v world \<Rightarrow> template \<Rightarrow> 'v collection \<Rightarrow> string \<Rightarrow> string option \<Rightarrow> string io" where
  "generate_answer w RAG_PROMPT_CONSTANT db query current_location =
     io_bind (get_relevant_passage w query db 5)
       (\<lambda>relevant_text.
          io_bind (io_pure (make_rag_prompt RAG_PROMPT_CONSTANT query (concat relevant_text) current_location))
            (\<lambda>prompt. private_generate_answer w prompt))"

text \<open>
  \<^verbatim>\<open>def ask_question(query, current_location=None)\<close>: a caller passes the second
  argument or leaves it out, and the parameter is bound to the default when it is left out.
\<close>

datatype 'a argument = Omitted | Passed 'a

fun bind_parameter :: "'a \<Rightarrow> 'a argument \<Rightarrow> 'a" where
  "bind_parameter dflt Omitted = dflt"
| "bind_parameter dflt (Passed v) = v"

definition ask_question ::
  "'v world \<Rightarrow> template \<Rightarrow> string \<Rightarrow> (string option) argument \<Rightarrow> string io" where
  "ask_question w RAG_PROMPT_CONSTANT query current_location_arg =
     (let current_location = bind_parameter None current_location_arg
      in io_bind (load_chroma_collection w ''./chroma'' ''chatbot_rag_collection'')
           (\<lambda>db. generate_answer w RAG_PROMPT_CONSTANT db query current_location))"

subsection \<open>Auxiliary notions for stating the properties\<close>

text \<open>A template all of whose fields are among the three keyword arguments.\<close>

fun known_piece :: "piece \<Rightarrow> bool" where
  "known_piece (Lit s) = True"
| "known_piece (Field n) = (n = ''query'' \<or> n = ''relevant_passage'' \<or> n = ''current_location'')"

definition known_fields :: "template \<Rightarrow> bool" where
  "known_fields t = list_all known_piece t"

text \<open>The text one piece of the template contributes, given the three slot values.\<close>

fun fill :: "string \<Rightarrow> string \<Rightarrow> string \<Rightarrow> piece \<Rightarrow> string" where
  "fill q p l (Lit s) = s"
| "fill q p l (Field n) = (if n = ''query'' then q else if n = ''relevant_passage'' then p else l)"

text \<open>
  The store's side of retrieval. The collection holds the documents \<open>held\<close>; for a query
  vector \<open>v\<close> the store ranks all of them, most relevant first, as \<open>ranked v\<close>; and for
  every batch of query vectors and every number of results the search reports, per
  vector, the first entries of that ranking (all of them when there are fewer).
\<close>

definition top_k_store :: "'v collection_store \<Rightarrow> string list \<Rightarrow> ('v \<Rightarrow> string list) \<Rightarrow> bool" where
  "top_k_store st held ranked =
     ((\<forall>v. mset (ranked v) = mset held)
      \<and> (\<forall>vs n. nearest st vs n = Inr (map (\<lambda>v. take n (ranked v)) vs)))"

text \<open>The events of one complete run of the pipeline under key \<open>k\<close>.\<close>

definition pipeline_events :: "string \<Rightarrow> string \<Rightarrow> string \<Rightarrow> event list" where
  "pipeline_events k query prompt =
     [EvPersistentClient ''./chroma'',
      EvGetCollection ''chatbot_rag_collection'',
      EvQuery [query] 5,
      EvGetenv ''GEMINI_API_KEY'',
      EvConfigure k,
      EvEmbedContent ''models/embedding-001'' [query] ''retrieval_document'' ''Custom query'',
      EvGetenv ''GEMINI_API_KEY'',
      EvConfigure k,
      EvGenerateContent ''gemini-1.5-flash'' prompt]"

subsection \<open>Stub environments\<close>

definition stub_documents :: "string list" where
  "stub_documents = [''BRTS stands for Bus Rapid Transit System.'', ''It started in Bhopal in 2013.'']"

definition six_documents :: "string list" where
  "six_documents = [''d1'', ''d2'', ''d3'', ''d4'', ''d5'', ''d6'']"

definition stub_store :: "string list \<Rightarrow> (int list) collection_store" where
  "stub_store docs = \<lparr>nearest = (\<lambda>vs n. Inr (map (\<lambda>v. take n docs) vs))\<rparr>"

definition stub_client :: "string list \<Rightarrow> (int list) chroma_client" where
  "stub_client docs =
     \<lparr>get_collection = (\<lambda>name. if name = ''chatbot_rag_collection'' then Inr (stub_store docs)
                                else Inl (LibraryError ''collection does not exist''))\<rparr>"

definition echo_model :: "string \<Rightarrow> error + string" where
  "echo_model prompt = Inr prompt"

text \<open>
  The environment variable holds \<open>key\<close>, the store under ./chroma holds \<open>docs\<close>, every
  text is embedded as the same fixed vector, and the generation model is \<open>model\<close>.
\<close>

definition stub_world :: "string option \<Rightarrow> string list \<Rightarrow> (string \<Rightarrow> error + string) \<Rightarrow> (int list) world" where
  "stub_world key docs model =
     \<lparr>getenv = (\<lambda>name. if name = ''GEMINI_API_KEY'' then key else None),
      persistent_client = (\<lambda>path. if path = ''./chroma'' then Inr (stub_client docs)
                                   else Inl (LibraryError ''no store at this path'')),
      embed_content = (\<lambda>k m content task_type title. Inr (map (\<lambda>text. [1, 0]) content)),
      generate_content = (\<lambda>k m prompt. model prompt)\<rparr>"

text \<open>A world whose store directory cannot be opened.\<close>

definition no_store_world :: "(int list) world" where
  "no_store_world =
     \<lparr>getenv = (\<lambda>name. Some ''key''),
      persistent_client = (\<lambda>path. Inl (LibraryError ''no store at this path'')),
      embed_content = (\<lambda>k m content task_type title. Inr (map (\<lambda>text. [1, 0]) content)),
      generate_content = (\<lambda>k m prompt. Inr prompt)\<rparr>"

definition stub_template :: template where
  "stub_template =
     [Lit ''QUESTION: '', Field ''query'', Lit '' PASSAGE: '', Field ''relevant_passage'',
      Lit '' LOCATION: '', Field ''current_location'']"

definition bad_template :: template where
  "bad_template = [Lit ''QUESTION: '', Field ''query'', Lit '' '', Field ''history'']"

definition stub_prompt :: string where
  "stub_prompt =
     ''QUESTION: What is BRTS? PASSAGE: BRTS stands for Bus Rapid Transit System.It started in Bhopal in 2013. LOCATION: None''"

text \<open>Two passages with a single quote, a newline and a double quote in them.\<close>

definition quoted_documents :: "string list" where
  "quoted_documents = [[CHR ''a'', CHR 0x27, CHR 0x0A, CHR ''b''], [CHR 0x0A, CHR ''c'', CHR 0x22, CHR 0x0A, CHR ''d'']]"

text \<open>A query of blanks with a quote and a newline in it.\<close>

definition blank_query :: string where
  "blank_query = [CHR '' '', CHR 0x27, CHR 0x0A, CHR '' '']"

section \<open>Stage by stage\<close>

lemmas io_defs = io_bind_def io_call_def io_return_def io_raise_def io_pure_def

lemma embedding_step:
  "GeminiEmbeddingFunction_call w input log =
     (case getenv w ''GEMINI_API_KEY'' of
        None \<Rightarrow> (Inl (ValueError missing_key_message), log @ [EvGetenv ''GEMINI_API_KEY''])
      | Some k \<Rightarrow>
          if k = [] then (Inl (ValueError missing_key_message), log @ [EvGetenv ''GEMINI_API_KEY''])
          else (embed_content w k ''models/embedding-001'' input ''retrieval_document'' ''Custom query'',
                log @ [EvGetenv ''GEMINI_API_KEY'', EvConfigure k,
                       EvEmbedContent ''models/embedding-001'' input ''retrieval_document'' ''Custom query'']))"
  by (simp add: GeminiEmbeddingFunction_call_def io_defs split: option.splits)

lemma generation_step:
  "private_generate_answer w prompt log =
     (case getenv w ''GEMINI_API_KEY'' of
        None \<Rightarrow> (Inl (ValueError missing_key_message), log @ [EvGetenv ''GEMINI_API_KEY''])
      | Some k \<Rightarrow>
          if k = [] then (Inl (ValueError missing_key_message), log @ [EvGetenv ''GEMINI_API_KEY''])
          else (generate_content w k ''gemini-1.5-flash'' prompt,
                log @ [EvGetenv ''GEMINI_API_KEY'', EvConfigure k,
                       EvGenerateContent ''gemini-1.5-flash'' prompt]))"
  by (simp add: private_generate_answer_def io_defs split: option.splits)

lemma load_step:
  "load_chroma_collection w path name log =
     (case persistent_client w path of
        Inl e \<Rightarrow> (Inl e, log @ [EvPersistentClient path])
      | Inr c \<Rightarrow>
          (case get_collection c name of
             Inl e \<Rightarrow> (Inl e, log @ [EvPersistentClient path, EvGetCollection name])
           | Inr st \<Rightarrow> (Inr \<lparr>store = st, bound_embedding_function = GeminiEmbeddingFunction\<rparr>,
                        log @ [EvPersistentClient path, EvGetCollection name])))"
  by (simp add: load_chroma_collection_def io_defs split: sum.splits)

lemma retrieval_step:
  "get_relevant_passage w query db n log =
     (case GeminiEmbeddingFunction_call w [query] (log @ [EvQuery [query] n]) of
        (Inl e, log') \<Rightarrow> (Inl e, log')
      | (Inr embs, log') \<Rightarrow>
          (case nearest (store db) embs n of
             Inl e \<Rightarrow> (Inl e, log')
           | Inr [] \<Rightarrow> (Inl IndexError, log')
           | Inr (d # ds) \<Rightarrow> (Inr d, log')))"
  by (cases "bound_embedding_function db")
     (simp add: get_relevant_passage_def collection_query_def io_defs
           split: prod.splits sum.splits list.splits)

lemma generate_answer_stages:
  "generate_answer w t db query loc log =
     (case get_relevant_passage w query db 5 log of
        (Inl e, log2) \<Rightarrow> (Inl e, log2)
      | (Inr passages, log2) \<Rightarrow>
          (case make_rag_prompt t query (concat passages) loc of
             Inl e \<Rightarrow> (Inl e, log2)
           | Inr prompt \<Rightarrow> private_generate_answer w prompt log2))"
  by (simp add: generate_answer_def io_defs split: prod.splits sum.splits)

lemma ask_question_stages:
  "ask_question w t query a log =
     (case load_chroma_collection w ''./chroma'' ''chatbot_rag_collection'' log of
        (Inl e, log1) \<Rightarrow> (Inl e, log1)
      | (Inr db, log1) \<Rightarrow> generate_answer w t db query (bind_parameter None a) log1)"
  by (simp add: ask_question_def io_defs split: prod.splits sum.splits)

lemma str_format_known:
  "known_fields t \<Longrightarrow>
   str_format t [(''query'', q), (''relevant_passage'', p), (''current_location'', l)]
     = Inr (concat (map (fill q p l) t))"
proof (induction t)
  case Nil
  then show ?case by simp
next
  case (Cons a t)
  then show ?case by (cases a) (auto simp: known_fields_def)
qed

lemma ask_question_success:
  assumes "getenv w ''GEMINI_API_KEY'' = Some k" and "k \<noteq> []"
    and "persistent_client w ''./chroma'' = Inr client"
    and "get_collection client ''chatbot_rag_collection'' = Inr st"
    and "embed_content w k ''models/embedding-001'' [query] ''retrieval_document'' ''Custom query'' = Inr embs"
    and "nearest st embs 5 = Inr (passages # others)"
    and "make_rag_prompt t query (concat passages) (bind_parameter None a) = Inr prompt"
  shows "ask_question w t query a log =
           (generate_content w k ''gemini-1.5-flash'' prompt, log @ pipeline_events k query prompt)"
  using assms
  by (simp add: ask_question_stages load_step generate_answer_stages retrieval_step
        embedding_step generation_step pipeline_events_def)

lemmas stage_simps = ask_question_stages load_step generate_answer_stages retrieval_step
  embedding_step generation_step pipeline_events_def



lemma replace_append: "replace old new (xs @ ys) = replace old new xs @ replace old new ys"
  by (simp add: replace_def)

lemma replace_delete: "replace old [] s = filter (\<lambda>c. c \<noteq> old) s"
  by (induction s) (simp_all add: replace_def)

lemma replace_single: "replace old [new] s = map (\<lambda>c. if c = old then new else c) s"
  by (induction s) (simp_all add: replace_def)

lemma escaped_map_filter:
  "escaped p = map (\<lambda>c. if c = CHR 0x0A then CHR '' '' else c)
                   (filter (\<lambda>c. c \<noteq> CHR 0x27 \<and> c \<noteq> CHR 0x22) p)"
  by (simp add: escaped_def replace_delete replace_single conj_commute)

lemma escaped_append: "escaped (xs @ ys) = escaped xs @ escaped ys"
  by (simp add: escaped_def replace_append)

lemma escaped_concat: "escaped (concat ps) = concat (map escaped ps)"
  by (induction ps) (simp_all add: escaped_append escaped_def replace_def)

lemma make_rag_prompt_known:
  "known_fields t \<Longrightarrow>
   make_rag_prompt t q p loc = Inr (concat (map (fill q (escaped p) (py_str loc)) t))"
  by (simp add: make_rag_prompt_def str_format_known)

lemma field_sublist:
  "Field n \<in> set t \<Longrightarrow> sublist (fill q p l (Field n)) (concat (map (fill q p l) t))"
proof -
  assume "Field n \<in> set t"
  then obtain ys zs where "t = ys @ Field n # zs"
    by (auto dest: split_list)
  then have "concat (map (fill q p l) t)
      = concat (map (fill q p l) ys) @ fill q p l (Field n) @ concat (map (fill q p l) zs)"
    by simp
  then show ?thesis
    unfolding sublist_def by blast
qed

section \<open>Properties of the pipeline\<close>

lemma stub_run:
  "k \<noteq> [] \<Longrightarrow>
   make_rag_prompt t query (concat (take 5 docs)) (bind_parameter None a) = Inr prompt \<Longrightarrow>
   ask_question (stub_world (Some k) docs model) t query a log
     = (model prompt, log @ pipeline_events k query prompt)"
  using ask_question_success [where w = "stub_world (Some k) docs model" and k = k
      and client = "stub_client docs" and st = "stub_store docs" and embs = "[[1, 0]]"
      and passages = "take 5 docs" and others = "[]" and t = t and query = query and a = a
      and prompt = prompt and log = log]
  by (simp add: stub_world_def stub_client_def stub_store_def)

lemma stub_prompt_eq:
  "make_rag_prompt stub_template ''What is BRTS?'' (concat stub_documents) None = Inr stub_prompt"
  by (simp add: make_rag_prompt_def stub_template_def stub_documents_def stub_prompt_def
      escaped_def replace_def)

lemma answer_is_model_text:
  assumes "ask_question w t query a log = (Inr s, log')"
  shows "\<exists>k prompt. generate_content w k ''gemini-1.5-flash'' prompt = Inr s"
proof -
  from assms obtain db log1 where
    "generate_answer w t db query (bind_parameter None a) log1 = (Inr s, log')"
    by (auto simp add: ask_question_stages split: prod.splits sum.splits)
  then obtain prompt log2 where "private_generate_answer w prompt log2 = (Inr s, log')"
    by (auto simp add: generate_answer_stages split: prod.splits sum.splits)
  then show ?thesis
    by (auto simp add: generation_step split: option.splits if_splits)
qed



text \<open>
  C2. The passage block of the prompt contains no single quote, no double quote and no
  newline: \<open>escaped\<close> deletes every single quote and every double quote, turns every
  newline into one space and keeps every other character in place. The passages are
  joined in the order retrieval returned them, with nothing between them, and the joined
  block is what is escaped; escaping the block is escaping each passage. The escaped
  block is the text that fills the \<^verbatim>\<open>relevant_passage\<close> field of the prompt handed
  to the generation step.
\<close>

theorem passage_block_sanitized:
  "CHR 0x27 \<notin> set (escaped p) \<and> CHR 0x22 \<notin> set (escaped p) \<and> CHR 0x0A \<notin> set (escaped p)
   \<and> escaped p = map (\<lambda>c. if c = CHR 0x0A then CHR '' '' else c)
                      (filter (\<lambda>c. c \<noteq> CHR 0x27 \<and> c \<noteq> CHR 0x22) p)
   \<and> escaped (concat passages) = concat (map escaped passages)
   \<and> make_rag_prompt [Field ''relevant_passage''] q p loc = Inr (escaped p)
   \<and> (known_fields t \<and> get_relevant_passage w q db 5 log = (Inr passages, log') \<longrightarrow>
        generate_answer w t db q loc log =
          private_generate_answer w
            (concat (map (fill q (escaped (concat passages)) (py_str loc)) t)) log')"
proof -
  have "CHR 0x27 \<notin> set (escaped p)" "CHR 0x22 \<notin> set (escaped p)" "CHR 0x0A \<notin> set (escaped p)"
    by (auto simp: escaped_map_filter)
  moreover have "make_rag_prompt [Field ''relevant_passage''] q p loc = Inr (escaped p)"
    by (simp add: make_rag_prompt_def)
  moreover have "generate_answer w t db q loc log =
          private_generate_answer w
            (concat (map (fill q (escaped (concat passages)) (py_str loc)) t)) log'"
    if "known_fields t" "get_relevant_passage w q db 5 log = (Inr passages, log')"
    using that by (simp add: generate_answer_stages make_rag_prompt_known)
  ultimately show ?thesis
    using escaped_map_filter [of p] escaped_concat [of passages] by blast
qed

theorem passage_block_sanitized_witness:
  "known_fields stub_template
   \<and> get_relevant_passage (stub_world (Some ''key'') quoted_documents echo_model) ''q''
        \<lparr>store = stub_store quoted_documents, bound_embedding_function = GeminiEmbeddingFunction\<rparr> 5 []
      = (Inr quoted_documents,
         [EvQuery [''q''] 5, EvGetenv ''GEMINI_API_KEY'', EvConfigure ''key'',
          EvEmbedContent ''models/embedding-001'' [''q''] ''retrieval_document'' ''Custom query''])
   \<and> escaped (concat quoted_documents) = ''a b c d''
   \<and> fst (generate_answer (stub_world (Some ''key'') quoted_documents echo_model) stub_template
        \<lparr>store = stub_store quoted_documents, bound_embedding_function = GeminiEmbeddingFunction\<rparr>
        ''q'' None [])
      = Inr ''QUESTION: q PASSAGE: a b c d LOCATION: None''"
proof -
  let ?w = "stub_world (Some ''key'') quoted_documents echo_model"
  let ?db = "\<lparr>store = stub_store quoted_documents, bound_embedding_function = GeminiEmbeddingFunction\<rparr>"
  let ?log = "[EvQuery [''q''] 5, EvGetenv ''GEMINI_API_KEY'', EvConfigure ''key'',
          EvEmbedContent ''models/embedding-001'' [''q''] ''retrieval_document'' ''Custom query'']"
  have known: "known_fields stub_template"
    by (simp add: known_fields_def stub_template_def)
  have retrieved: "get_relevant_passage ?w ''q'' ?db 5 [] = (Inr quoted_documents, ?log)"
    by (simp add: retrieval_step embedding_step stub_world_def stub_store_def quoted_documents_def)
  have esc: "escaped (concat quoted_documents) = ''a b c d''"
    by (simp add: quoted_documents_def escaped_def replace_def)
  from passage_block_sanitized [where t = stub_template and w = ?w and db = ?db and q = "''q''"
      and passages = quoted_documents and log = "[]" and log' = ?log and loc = None]
    known retrieved
  have "generate_answer ?w stub_template ?db ''q'' None [] =
          private_generate_answer ?w
            (concat (map (fill ''q'' (escaped (concat quoted_documents)) (py_str None)) stub_template)) ?log"
    by blast
  then have "fst (generate_answer ?w stub_template ?db ''q'' None [])
      = Inr ''QUESTION: q PASSAGE: a b c d LOCATION: None''"
    by (simp add: esc generation_step stub_world_def echo_model_def stub_template_def)
  with known retrieved esc show ?thesis by simp
qed

text \<open>
  C3. When GEMINI_API_KEY is unset or empty, the embedding step and the generation step
  each raise the error of the credential check (Python's \<^verbatim>\<open>ValueError\<close> with the
  message that the key was not provided, the specification's missing-credential
  configuration error) after reading the variable and before anything else: the log
  gains the read of the variable only, and no network call. When the variable holds a
  non-empty key the check raises nothing: the step configures the key, makes its network
  call, and its outcome is that call's outcome.
\<close>

theorem missing_credential_raises_before_network:
  "(getenv w ''GEMINI_API_KEY'' = None \<or> getenv w ''GEMINI_API_KEY'' = Some [] \<longrightarrow>
      GeminiEmbeddingFunction_call w input log =
        (Inl (ValueError missing_key_message), log @ [EvGetenv ''GEMINI_API_KEY''])
      \<and> private_generate_answer w prompt log =
        (Inl (ValueError missing_key_message), log @ [EvGetenv ''GEMINI_API_KEY''])
      \<and> filter is_network (snd (GeminiEmbeddingFunction_call w input log)) = filter is_network log
      \<and> filter is_network (snd (private_generate_answer w prompt log)) = filter is_network log)
   \<and> (getenv w ''GEMINI_API_KEY'' = Some k \<and> k \<noteq> [] \<longrightarrow>
      GeminiEmbeddingFunction_call w input log =
        (embed_content w k ''models/embedding-001'' input ''retrieval_document'' ''Custom query'',
         log @ [EvGetenv ''GEMINI_API_KEY'', EvConfigure k,
                EvEmbedContent ''models/embedding-001'' input ''retrieval_document'' ''Custom query''])
      \<and> private_generate_answer w prompt log =
        (generate_content w k ''gemini-1.5-flash'' prompt,
         log @ [EvGetenv ''GEMINI_API_KEY'', EvConfigure k,
                EvGenerateContent ''gemini-1.5-flash'' prompt]))"
  by (auto simp add: embedding_step generation_step)

theorem missing_credential_raises_before_network_witness:
  "getenv (stub_world None stub_documents echo_model) ''GEMINI_API_KEY'' = None
   \<and> GeminiEmbeddingFunction_call (stub_world None stub_documents echo_model) [''q''] []
       = (Inl (ValueError missing_key_message), [EvGetenv ''GEMINI_API_KEY''])
   \<and> private_generate_answer (stub_world None stub_documents echo_model) ''p'' []
       = (Inl (ValueError missing_key_message), [EvGetenv ''GEMINI_API_KEY''])
   \<and> getenv (stub_world (Some []) stub_documents echo_model) ''GEMINI_API_KEY'' = Some []
   \<and> private_generate_answer (stub_world (Some []) stub_documents echo_model) ''p'' []
       = (Inl (ValueError missing_key_message), [EvGetenv ''GEMINI_API_KEY''])
   \<and> getenv (stub_world (Some ''key'') stub_documents echo_model) ''GEMINI_API_KEY'' = Some ''key''
   \<and> GeminiEmbeddingFunction_call (stub_world (Some ''key'') stub_documents echo_model) [''q''] []
       = (Inr [[1, 0]],
          [EvGetenv ''GEMINI_API_KEY'', EvConfigure ''key'',
           EvEmbedContent ''models/embedding-001'' [''q''] ''retrieval_document'' ''Custom query''])
   \<and> private_generate_answer (stub_world (Some ''key'') stub_documents echo_model) ''p'' []
       = (Inr ''p'',
          [EvGetenv ''GEMINI_API_KEY'', EvConfigure ''key'', EvGenerateContent ''gemini-1.5-flash'' ''p''])"
  using
    missing_credential_raises_before_network [where w = "stub_world None stub_documents echo_model"
      and input = "[''q'']" and prompt = "''p''" and log = "[]" and k = "''key''"]
    missing_credential_raises_before_network [where w = "stub_world (Some []) stub_documents echo_model"
      and input = "[''q'']" and prompt = "''p''" and log = "[]" and k = "''key''"]
    missing_credential_raises_before_network [where w = "stub_world (Some ''key'') stub_documents echo_model"
      and input = "[''q'']" and prompt = "''p''" and log = "[]" and k = "''key''"]
  by (simp add: stub_world_def echo_model_def)

text \<open>
  C4. Retrieval asks the store for 5 results and returns what the store reports for the
  query, as it is. So for a store that reports the first entries of its ranking, and a
  query that was embedded, the result is the first 5 entries of the store's ranking for
  the query vector, in the store's order: exactly 5 documents when the collection holds
  at least 5, and all the documents of the collection, without error, when it holds
  fewer.
\<close>

theorem retrieval_top_five:
  "top_k_store (store db) held ranked
   \<and> getenv w ''GEMINI_API_KEY'' = Some k \<and> k \<noteq> []
   \<and> embed_content w k ''models/embedding-001'' [query] ''retrieval_document'' ''Custom query'' = Inr [v]
   \<longrightarrow> fst (get_relevant_passage w query db 5 log) = Inr (take 5 (ranked v))
     \<and> (5 \<le> length held \<longrightarrow> length (take 5 (ranked v)) = 5)
     \<and> (length held < 5 \<longrightarrow> take 5 (ranked v) = ranked v \<and> length (ranked v) = length held)"
proof (intro impI, elim conjE)
  assume st: "top_k_store (store db) held ranked"
    and k: "getenv w ''GEMINI_API_KEY'' = Some k" "k \<noteq> []"
    and emb: "embed_content w k ''models/embedding-001'' [query] ''retrieval_document'' ''Custom query'' = Inr [v]"
  from st have len: "length (ranked v) = length held"
    unfolding top_k_store_def by (metis mset_eq_length)
  from st have "nearest (store db) [v] 5 = Inr [take 5 (ranked v)]"
    by (simp add: top_k_store_def)
  with k emb have "fst (get_relevant_passage w query db 5 log) = Inr (take 5 (ranked v))"
    by (simp add: retrieval_step embedding_step)
  with len show "fst (get_relevant_passage w query db 5 log) = Inr (take 5 (ranked v))
     \<and> (5 \<le> length held \<longrightarrow> length (take 5 (ranked v)) = 5)
     \<and> (length held < 5 \<longrightarrow> take 5 (ranked v) = ranked v \<and> length (ranked v) = length held)"
    by simp
qed

theorem retrieval_top_five_witness:
  "top_k_store (stub_store six_documents) six_documents (\<lambda>v. six_documents)
   \<and> 5 \<le> length six_documents
   \<and> fst (get_relevant_passage (stub_world (Some ''key'') six_documents echo_model) ''q''
        \<lparr>store = stub_store six_documents, bound_embedding_function = GeminiEmbeddingFunction\<rparr> 5 [])
      = Inr [''d1'', ''d2'', ''d3'', ''d4'', ''d5'']
   \<and> top_k_store (stub_store stub_documents) stub_documents (\<lambda>v. stub_documents)
   \<and> length stub_documents < 5
   \<and> fst (get_relevant_passage (stub_world (Some ''key'') stub_documents echo_model) ''q''
        \<lparr>store = stub_store stub_documents, bound_embedding_function = GeminiEmbeddingFunction\<rparr> 5 [])
      = Inr stub_documents"
proof -
  have six: "top_k_store (stub_store six_documents) six_documents (\<lambda>v. six_documents)"
    and two: "top_k_store (stub_store stub_documents) stub_documents (\<lambda>v. stub_documents)"
    by (simp_all add: top_k_store_def stub_store_def)
  have env: "getenv (stub_world (Some ''key'') docs echo_model) ''GEMINI_API_KEY'' = Some ''key''"
    "embed_content (stub_world (Some ''key'') docs echo_model) ''key'' ''models/embedding-001''
       [''q''] ''retrieval_document'' ''Custom query'' = Inr [[1, 0]]" for docs
    by (simp_all add: stub_world_def)
  have lens: "5 \<le> length six_documents" "length stub_documents < 5"
    by (simp_all add: six_documents_def stub_documents_def)
  from retrieval_top_five [where db = "\<lparr>store = stub_store six_documents, bound_embedding_function = GeminiEmbeddingFunction\<rparr>"
      and held = six_documents and ranked = "\<lambda>v. six_documents" and k = "''key''" and v = "[1, 0]"
      and w = "stub_world (Some ''key'') six_documents echo_model" and query = "''q''" and log = "[]"]
    six env
  have a: "fst (get_relevant_passage (stub_world (Some ''key'') six_documents echo_model) ''q''
        \<lparr>store = stub_store six_documents, bound_embedding_function = GeminiEmbeddingFunction\<rparr> 5 [])
      = Inr (take 5 six_documents)"
    by simp
  from retrieval_top_five [where db = "\<lparr>store = stub_store stub_documents, bound_embedding_function = GeminiEmbeddingFunction\<rparr>"
      and held = stub_documents and ranked = "\<lambda>v. stub_documents" and k = "''key''" and v = "[1, 0]"
      and w = "stub_world (Some ''key'') stub_documents echo_model" and query = "''q''" and log = "[]"]
    two env lens
  have b: "fst (get_relevant_passage (stub_world (Some ''key'') stub_documents echo_model) ''q''
        \<lparr>store = stub_store stub_documents, bound_embedding_function = GeminiEmbeddingFunction\<rparr> 5 [])
      = Inr stub_documents"
    by simp
  from a have "fst (get_relevant_passage (stub_world (Some ''key'') six_documents echo_model) ''q''
        \<lparr>store = stub_store six_documents, bound_embedding_function = GeminiEmbeddingFunction\<rparr> 5 [])
      = Inr [''d1'', ''d2'', ''d3'', ''d4'', ''d5'']"
    by (simp add: six_documents_def)
  with b six two lens show ?thesis by simp
qed

text \<open>
  C5. \<open>ask_question\<close> stops at the first stage that fails and hands that stage's error
  to the caller, with the log as the failed stage left it: nothing is called after the
  failure, so nothing is retried and no generation request is made. This holds for
  loading the collection, for retrieval and for formatting the prompt. When the three
  succeed, the outcome of \<open>ask_question\<close> is the outcome of the generation step on the
  formatted prompt, and whenever \<open>ask_question\<close> returns a string, that string is the
  whole text the generation model gave for a prompt: the result is an error or a complete
  answer.
\<close>

theorem ask_question_fail_fast:
  "(load_chroma_collection w ''./chroma'' ''chatbot_rag_collection'' log = (Inl e, log1) \<longrightarrow>
      ask_question w t query a log = (Inl e, log1))
   \<and> (load_chroma_collection w ''./chroma'' ''chatbot_rag_collection'' log = (Inr db, log1)
      \<and> get_relevant_passage w query db 5 log1 = (Inl e, log2) \<longrightarrow>
      ask_question w t query a log = (Inl e, log2))
   \<and> (load_chroma_collection w ''./chroma'' ''chatbot_rag_collection'' log = (Inr db, log1)
      \<and> get_relevant_passage w query db 5 log1 = (Inr passages, log2)
      \<and> make_rag_prompt t query (concat passages) (bind_parameter None a) = Inl e \<longrightarrow>
      ask_question w t query a log = (Inl e, log2))
   \<and> (load_chroma_collection w ''./chroma'' ''chatbot_rag_collection'' log = (Inr db, log1)
      \<and> get_relevant_passage w query db 5 log1 = (Inr passages, log2)
      \<and> make_rag_prompt t query (concat passages) (bind_parameter None a) = Inr prompt \<longrightarrow>
      ask_question w t query a log = private_generate_answer w prompt log2)
   \<and> (fst (ask_question w t query a log) = Inr s \<longrightarrow>
      (\<exists>k' prompt'. generate_content w k' ''gemini-1.5-flash'' prompt' = Inr s))"
proof -
  have "\<exists>k' prompt'. generate_content w k' ''gemini-1.5-flash'' prompt' = Inr s"
    if "fst (ask_question w t query a log) = Inr s"
    using that answer_is_model_text [of w t query a log s "snd (ask_question w t query a log)"]
    by (metis prod.collapse)
  then show ?thesis
    by (simp add: ask_question_stages generate_answer_stages)
qed

theorem ask_question_fail_fast_witness:
  "load_chroma_collection no_store_world ''./chroma'' ''chatbot_rag_collection'' []
      = (Inl (LibraryError ''no store at this path''), [EvPersistentClient ''./chroma''])
   \<and> ask_question no_store_world stub_template ''What is BRTS?'' Omitted []
      = (Inl (LibraryError ''no store at this path''), [EvPersistentClient ''./chroma''])
   \<and> get_relevant_passage (stub_world None stub_documents echo_model) ''What is BRTS?''
        \<lparr>store = stub_store stub_documents, bound_embedding_function = GeminiEmbeddingFunction\<rparr> 5
        [EvPersistentClient ''./chroma'', EvGetCollection ''chatbot_rag_collection'']
      = (Inl (ValueError missing_key_message), take 4 (pipeline_events [] ''What is BRTS?'' []))
   \<and> ask_question (stub_world None stub_documents echo_model) stub_template ''What is BRTS?'' Omitted []
      = (Inl (ValueError missing_key_message), take 4 (pipeline_events [] ''What is BRTS?'' []))
   \<and> make_rag_prompt bad_template ''What is BRTS?'' (concat stub_documents) None
      = Inl (KeyError ''history'')
   \<and> ask_question (stub_world (Some ''key'') stub_documents echo_model) bad_template ''What is BRTS?'' Omitted []
      = (Inl (KeyError ''history''), take 6 (pipeline_events ''key'' ''What is BRTS?'' []))
   \<and> fst (ask_question (stub_world (Some ''key'') stub_documents echo_model) stub_template ''What is BRTS?'' Omitted [])
      = Inr stub_prompt
   \<and> (\<exists>k' prompt'. generate_content (stub_world (Some ''key'') stub_documents echo_model)
          k' ''gemini-1.5-flash'' prompt' = Inr stub_prompt)"
proof -
  let ?db = "\<lparr>store = stub_store stub_documents, bound_embedding_function = GeminiEmbeddingFunction\<rparr>"
  let ?log1 = "[EvPersistentClient ''./chroma'', EvGetCollection ''chatbot_rag_collection'']"
  let ?nokey = "stub_world None stub_documents echo_model"
  let ?w = "stub_world (Some ''key'') stub_documents echo_model"
  have load0: "load_chroma_collection no_store_world ''./chroma'' ''chatbot_rag_collection'' []
      = (Inl (LibraryError ''no store at this path''), [EvPersistentClient ''./chroma''])"
    by (simp add: load_step no_store_world_def)
  have load: "load_chroma_collection (stub_world key stub_documents echo_model)
       ''./chroma'' ''chatbot_rag_collection'' [] = (Inr ?db, ?log1)" for key
    by (simp add: load_step stub_world_def stub_client_def)
  have retr0: "get_relevant_passage ?nokey ''What is BRTS?'' ?db 5 ?log1
      = (Inl (ValueError missing_key_message), take 4 (pipeline_events [] ''What is BRTS?'' []))"
    by (simp add: retrieval_step embedding_step stub_world_def pipeline_events_def)
  have retr: "get_relevant_passage ?w ''What is BRTS?'' ?db 5 ?log1
      = (Inr stub_documents, take 6 (pipeline_events ''key'' ''What is BRTS?'' []))"
    by (simp add: retrieval_step embedding_step stub_world_def stub_store_def pipeline_events_def
        stub_documents_def)
  have bad: "make_rag_prompt bad_template ''What is BRTS?'' (concat stub_documents)
      (bind_parameter None Omitted) = Inl (KeyError ''history'')"
    by (simp add: make_rag_prompt_def bad_template_def)
  have good: "make_rag_prompt stub_template ''What is BRTS?'' (concat stub_documents)
      (bind_parameter None Omitted) = Inr stub_prompt"
    by (simp add: stub_prompt_eq)
  note inst = ask_question_fail_fast [where query = "''What is BRTS?''" and a = Omitted and log = "[]"]
  from inst [where w = no_store_world and t = stub_template, THEN conjunct1, THEN mp, OF load0]
  have r1: "ask_question no_store_world stub_template ''What is BRTS?'' Omitted []
      = (Inl (LibraryError ''no store at this path''), [EvPersistentClient ''./chroma''])" .
  from inst [where w = ?nokey and t = stub_template, THEN conjunct2, THEN conjunct1, THEN mp,
      OF conjI [OF load retr0]]
  have r2: "ask_question ?nokey stub_template ''What is BRTS?'' Omitted []
      = (Inl (ValueError missing_key_message), take 4 (pipeline_events [] ''What is BRTS?'' []))" .
  from inst [where w = ?w and t = bad_template, THEN conjunct2, THEN conjunct2, THEN conjunct1, THEN mp,
      OF conjI [OF load conjI [OF retr bad]]]
  have r3: "ask_question ?w bad_template ''What is BRTS?'' Omitted []
      = (Inl (KeyError ''history''), take 6 (pipeline_events ''key'' ''What is BRTS?'' []))" .
  from inst [where w = ?w and t = stub_template, THEN conjunct2, THEN conjunct2, THEN conjunct2,
      THEN conjunct1, THEN mp, OF conjI [OF load conjI [OF retr good]]]
  have "ask_question ?w stub_template ''What is BRTS?'' Omitted []
      = private_generate_answer ?w stub_prompt (take 6 (pipeline_events ''key'' ''What is BRTS?'' []))" .
  then have r4: "fst (ask_question ?w stub_template ''What is BRTS?'' Omitted []) = Inr stub_prompt"
    by (simp add: generation_step stub_world_def echo_model_def)
  from inst [where w = ?w and t = stub_template and s = stub_prompt, THEN conjunct2, THEN conjunct2,
      THEN conjunct2, THEN conjunct2, THEN mp, OF r4]
  have r5: "\<exists>k' prompt'. generate_content ?w k' ''gemini-1.5-flash'' prompt' = Inr stub_prompt" .
  from load0 r1 retr0 r2 bad r3 r4 r5 show ?thesis by simp
qed

text \<open>
  C6. In the stub environment (the store under ./chroma holds the two documents
  "BRTS stands for Bus Rapid Transit System." and "It started in Bhopal in 2013.", every
  text is embedded as a fixed vector, the generation model echoes its prompt) in which
  GEMINI_API_KEY holds a non-empty key, and for every template that has the
  \<^verbatim>\<open>query\<close> and \<^verbatim>\<open>relevant_passage\<close> fields and no field other than the three
  keyword arguments, \<open>ask_question\<close> on "What is BRTS?" returns a string that contains
  the query text and contains the two documents joined with nothing between them (they
  hold no quote and no newline, so escaping leaves them as they are).
\<close>

theorem stub_end_to_end:
  "k \<noteq> [] \<and> known_fields t \<and> Field ''query'' \<in> set t \<and> Field ''relevant_passage'' \<in> set t
   \<longrightarrow> (\<exists>s. fst (ask_question (stub_world (Some k) stub_documents echo_model) t
                    ''What is BRTS?'' Omitted log) = Inr s
          \<and> sublist ''What is BRTS?'' s
          \<and> sublist (''BRTS stands for Bus Rapid Transit System.'' @ ''It started in Bhopal in 2013.'') s)"
proof (intro impI, elim conjE)
  let ?w = "stub_world (Some k) stub_documents echo_model"
  let ?passage = "''BRTS stands for Bus Rapid Transit System.'' @ ''It started in Bhopal in 2013.''"
  let ?s = "concat (map (fill ''What is BRTS?'' ?passage ''None'') t)"
  assume k: "k \<noteq> []" and t: "known_fields t"
    and fq: "Field ''query'' \<in> set t" and fp: "Field ''relevant_passage'' \<in> set t"
  have five: "take 5 stub_documents = stub_documents"
    by (simp add: stub_documents_def)
  have esc: "escaped (concat stub_documents) = ?passage"
    by (simp add: stub_documents_def escaped_def replace_def)
  have "make_rag_prompt t ''What is BRTS?'' (concat (take 5 stub_documents)) (bind_parameter None Omitted) = Inr ?s"
    using t by (simp add: make_rag_prompt_known esc five)
  from stub_run [OF k this, of echo_model log]
  have "fst (ask_question ?w t ''What is BRTS?'' Omitted log) = Inr ?s"
    by (simp add: echo_model_def)
  moreover have "sublist ''What is BRTS?'' ?s"
    using field_sublist [OF fq, of "''What is BRTS?''" ?passage "''None''"] by simp
  moreover have "sublist ?passage ?s"
    using field_sublist [OF fp, of "''What is BRTS?''" ?passage "''None''"] by simp
  ultimately show "\<exists>s. fst (ask_question ?w t ''What is BRTS?'' Omitted log) = Inr s
          \<and> sublist ''What is BRTS?'' s \<and> sublist ?passage s"
    by blast
qed

theorem stub_end_to_end_witness:
  "''key'' \<noteq> [] \<and> known_fields stub_template
   \<and> Field ''query'' \<in> set stub_template \<and> Field ''relevant_passage'' \<in> set stub_template
   \<and> (\<exists>s. fst (ask_question (stub_world (Some ''key'') stub_documents echo_model) stub_template
                    ''What is BRTS?'' Omitted []) = Inr s
          \<and> sublist ''What is BRTS?'' s
          \<and> sublist (''BRTS stands for Bus Rapid Transit System.'' @ ''It started in Bhopal in 2013.'') s)"
proof -
  have hyps: "''key'' \<noteq> [] \<and> known_fields stub_template
      \<and> Field ''query'' \<in> set stub_template \<and> Field ''relevant_passage'' \<in> set stub_template"
    by (simp add: known_fields_def stub_template_def)
  from stub_end_to_end [where k = "''key''" and t = stub_template and log = "[]", THEN mp, OF hyps] hyps
  show ?thesis by blast
qed

text \<open>
  The same stub environment with GEMINI_API_KEY unset: the embedding of the query raises
  the error of the credential check, and \<open>ask_question\<close> returns no string.
\<close>

theorem stub_without_credential_counterexample:
  "ask_question (stub_world None stub_documents echo_model) stub_template ''What is BRTS?'' Omitted []
     = (Inl (ValueError missing_key_message),
        [EvPersistentClient ''./chroma'', EvGetCollection ''chatbot_rag_collection'',
         EvQuery [''What is BRTS?''] 5, EvGetenv ''GEMINI_API_KEY''])"
  by (simp add: stage_simps stub_world_def stub_client_def)

text \<open>
  C7. \<open>make_rag_prompt\<close> is a function of the template and its three arguments: equal
  argument triples give equal prompts. It makes no outside call: as a stage of the
  pipeline it returns its result and leaves the log of calls as it was.
\<close>

theorem make_rag_prompt_deterministic:
  "((q, p, loc) = (q', p', loc') \<longrightarrow> make_rag_prompt t q p loc = make_rag_prompt t q' p' loc')
   \<and> io_pure (make_rag_prompt t q p loc) log = (make_rag_prompt t q p loc, log)"
  by (simp add: io_pure_def)

theorem make_rag_prompt_deterministic_witness:
  "(''q'', ''p'', Some ''l'') = (''q'', ''p'', Some ''l'')
   \<and> make_rag_prompt stub_template ''q'' ''p'' (Some ''l'') = Inr ''QUESTION: q PASSAGE: p LOCATION: l''
   \<and> io_pure (make_rag_prompt stub_template ''q'' ''p'' (Some ''l'')) [EvGetenv ''GEMINI_API_KEY'']
       = (Inr ''QUESTION: q PASSAGE: p LOCATION: l'', [EvGetenv ''GEMINI_API_KEY''])"
  using make_rag_prompt_deterministic [where q = "''q''" and p = "''p''" and loc = "Some ''l''"
      and q' = "''q''" and p' = "''p''" and loc' = "Some ''l''" and t = stub_template
      and log = "[EvGetenv ''GEMINI_API_KEY'']"]
  by (simp add: make_rag_prompt_def stub_template_def escaped_def replace_def)

lemma ask_question_prompt:
  assumes "getenv w ''GEMINI_API_KEY'' = Some k" and "k \<noteq> []"
    and "persistent_client w ''./chroma'' = Inr client"
    and "get_collection client ''chatbot_rag_collection'' = Inr st"
    and "embed_content w k ''models/embedding-001'' [query] ''retrieval_document'' ''Custom query'' = Inr embs"
    and "nearest st embs 5 = Inr (passages # others)"
    and "known_fields t"
  shows "ask_question w t query a log =
           (generate_content w k ''gemini-1.5-flash''
              (concat (map (fill query (escaped (concat passages)) (py_str (bind_parameter None a))) t)),
            log @ pipeline_events k query
              (concat (map (fill query (escaped (concat passages)) (py_str (bind_parameter None a))) t)))"
  using ask_question_success [OF assms(1-6) make_rag_prompt_known [OF assms(7)], of a log] .

lemma stub_hyps:
  "getenv (stub_world (Some ''key'') stub_documents echo_model) ''GEMINI_API_KEY'' = Some ''key''
   \<and> ''key'' \<noteq> []
   \<and> persistent_client (stub_world (Some ''key'') stub_documents echo_model) ''./chroma''
       = Inr (stub_client stub_documents)
   \<and> get_collection (stub_client stub_documents) ''chatbot_rag_collection''
       = Inr (stub_store stub_documents)
   \<and> embed_content (stub_world (Some ''key'') stub_documents echo_model) ''key''
        ''models/embedding-001'' [query] ''retrieval_document'' ''Custom query'' = Inr [[1, 0]]
   \<and> nearest (stub_store stub_documents) [[1, 0]] 5 = Inr (stub_documents # [])"
proof -
  have "nearest (stub_store stub_documents) [[1, 0]] 5 = Inr (stub_documents # [])"
    by (simp add: stub_store_def stub_documents_def)
  then show ?thesis
    by (simp add: stub_world_def stub_client_def)
qed

text \<open>
  C8. When the outside dependencies succeed (the collection is loaded, the query is
  embedded, the store reports passages for it, and the generation model gives a text that
  is not empty; a reply without usable text is a failed generation), \<open>ask_question\<close>
  returns a string, that string is the model's text, and it is not empty. This holds for
  every query, the non-empty ones among them.
\<close>

theorem ask_question_nonempty_answer:
  "query \<noteq> []
   \<and> getenv w ''GEMINI_API_KEY'' = Some k \<and> k \<noteq> []
   \<and> persistent_client w ''./chroma'' = Inr client
   \<and> get_collection client ''chatbot_rag_collection'' = Inr st
   \<and> embed_content w k ''models/embedding-001'' [query] ''retrieval_document'' ''Custom query'' = Inr embs
   \<and> nearest st embs 5 = Inr (passages # others)
   \<and> make_rag_prompt t query (concat passages) (bind_parameter None a) = Inr prompt
   \<and> generate_content w k ''gemini-1.5-flash'' prompt = Inr text \<and> text \<noteq> []
   \<longrightarrow> fst (ask_question w t query a log) = Inr text
     \<and> (\<exists>s. fst (ask_question w t query a log) = Inr s \<and> s \<noteq> [])"
  by (auto simp add: ask_question_success)

theorem ask_question_nonempty_answer_witness:
  "''What is BRTS?'' \<noteq> []
   \<and> getenv (stub_world (Some ''key'') stub_documents echo_model) ''GEMINI_API_KEY'' = Some ''key''
   \<and> generate_content (stub_world (Some ''key'') stub_documents echo_model)
        ''key'' ''gemini-1.5-flash'' stub_prompt = Inr stub_prompt
   \<and> stub_prompt \<noteq> []
   \<and> fst (ask_question (stub_world (Some ''key'') stub_documents echo_model) stub_template
        ''What is BRTS?'' Omitted []) = Inr stub_prompt
   \<and> (\<exists>s. fst (ask_question (stub_world (Some ''key'') stub_documents echo_model) stub_template
        ''What is BRTS?'' Omitted []) = Inr s \<and> s \<noteq> [])"
proof -
  let ?w = "stub_world (Some ''key'') stub_documents echo_model"
  have gen: "generate_content ?w ''key'' ''gemini-1.5-flash'' stub_prompt = Inr stub_prompt"
    by (simp add: stub_world_def echo_model_def)
  have nonempty: "stub_prompt \<noteq> []" "''What is BRTS?'' \<noteq> []"
    by (simp_all add: stub_prompt_def)
  have prompt: "make_rag_prompt stub_template ''What is BRTS?'' (concat stub_documents)
      (bind_parameter None Omitted) = Inr stub_prompt"
    by (simp add: stub_prompt_eq)
  from stub_hyps [of "''What is BRTS?''"] gen nonempty prompt
  have hyps: "''What is BRTS?'' \<noteq> []
      \<and> getenv ?w ''GEMINI_API_KEY'' = Some ''key'' \<and> ''key'' \<noteq> []
      \<and> persistent_client ?w ''./chroma'' = Inr (stub_client stub_documents)
      \<and> get_collection (stub_client stub_documents) ''chatbot_rag_collection'' = Inr (stub_store stub_documents)
      \<and> embed_content ?w ''key'' ''models/embedding-001'' [''What is BRTS?''] ''retrieval_document'' ''Custom query'' = Inr [[1, 0]]
      \<and> nearest (stub_store stub_documents) [[1, 0]] 5 = Inr (stub_documents # [])
      \<and> make_rag_prompt stub_template ''What is BRTS?'' (concat stub_documents) (bind_parameter None Omitted) = Inr stub_prompt
      \<and> generate_content ?w ''key'' ''gemini-1.5-flash'' stub_prompt = Inr stub_prompt \<and> stub_prompt \<noteq> []"
    by blast
  from ask_question_nonempty_answer [where log = "[]", THEN mp, OF hyps] hyps
  show ?thesis by blast
qed

text \<open>
  C9. \<open>ask_question\<close> does not check and does not change the query, whatever it is (the
  empty string and blank strings included). Once the collection is loaded, the store is
  queried with the query itself; with a key, the text sent to be embedded is the query
  itself. When retrieval succeeds, the prompt that \<open>ask_question\<close> hands to the generation
  model is the template with every \<^verbatim>\<open>query\<close> field filled with the query as it is,
  every \<^verbatim>\<open>current_location\<close> field with the location as it is, and the
  \<^verbatim>\<open>relevant_passage\<close> field alone with the escaped passage block; the outcome of
  \<open>ask_question\<close> is the outcome of the model on that prompt. For the template that is the
  \<^verbatim>\<open>query\<close> field alone, the prompt is the query; for the one that is the
  \<^verbatim>\<open>current_location\<close> field alone, it is the location passed.
\<close>

theorem ask_question_query_unchanged:
  "(persistent_client w ''./chroma'' = Inr client
      \<and> get_collection client ''chatbot_rag_collection'' = Inr st
      \<longrightarrow> (\<exists>rest. snd (ask_question w t query a log) =
             log @ [EvPersistentClient ''./chroma'', EvGetCollection ''chatbot_rag_collection'',
                    EvQuery [query] 5, EvGetenv ''GEMINI_API_KEY''] @ rest))
   \<and> (getenv w ''GEMINI_API_KEY'' = Some k \<and> k \<noteq> []
      \<and> persistent_client w ''./chroma'' = Inr client
      \<and> get_collection client ''chatbot_rag_collection'' = Inr st
      \<and> embed_content w k ''models/embedding-001'' [query] ''retrieval_document'' ''Custom query'' = Inr embs
      \<and> nearest st embs 5 = Inr (passages # others)
      \<longrightarrow>
        (known_fields t \<longrightarrow>
           ask_question w t query a log =
             (generate_content w k ''gemini-1.5-flash''
                (concat (map (fill query (escaped (concat passages)) (py_str (bind_parameter None a))) t)),
              log @ pipeline_events k query
                (concat (map (fill query (escaped (concat passages)) (py_str (bind_parameter None a))) t))))
        \<and> ask_question w [Field ''query''] query a log =
             (generate_content w k ''gemini-1.5-flash'' query, log @ pipeline_events k query query)
        \<and> ask_question w [Field ''current_location''] query (Passed (Some l)) log =
             (generate_content w k ''gemini-1.5-flash'' l, log @ pipeline_events k query l))"
proof -
  have first: "\<exists>rest. snd (ask_question w t query a log) =
             log @ [EvPersistentClient ''./chroma'', EvGetCollection ''chatbot_rag_collection'',
                    EvQuery [query] 5, EvGetenv ''GEMINI_API_KEY''] @ rest"
    if "persistent_client w ''./chroma'' = Inr client"
      "get_collection client ''chatbot_rag_collection'' = Inr st"
  proof -
    let ?db = "\<lparr>store = st, bound_embedding_function = GeminiEmbeddingFunction\<rparr>"
    let ?l1 = "log @ [EvPersistentClient ''./chroma'', EvGetCollection ''chatbot_rag_collection'']"
    let ?l2 = "?l1 @ [EvQuery [query] 5]"
    have load: "load_chroma_collection w ''./chroma'' ''chatbot_rag_collection'' log = (Inr ?db, ?l1)"
      using that by (simp add: load_step)
    have emb: "\<exists>r. snd (GeminiEmbeddingFunction_call w [query] ?l2) = ?l2 @ EvGetenv ''GEMINI_API_KEY'' # r"
      by (simp add: embedding_step split: option.splits)
    have retr: "snd (get_relevant_passage w query ?db 5 ?l1)
        = snd (GeminiEmbeddingFunction_call w [query] ?l2)"
      by (simp add: retrieval_step split: prod.splits sum.splits list.splits)
    obtain r where r: "snd (get_relevant_passage w query ?db 5 ?l1) = ?l2 @ EvGetenv ''GEMINI_API_KEY'' # r"
      using emb retr by auto
    have "\<exists>r'. snd (generate_answer w t ?db query (bind_parameter None a) ?l1)
        = snd (get_relevant_passage w query ?db 5 ?l1) @ r'"
      by (auto simp add: generate_answer_stages generation_step
          split: prod.splits sum.splits option.splits)
    then obtain r' where "snd (generate_answer w t ?db query (bind_parameter None a) ?l1)
        = ?l2 @ EvGetenv ''GEMINI_API_KEY'' # r @ r'"
      using r by auto
    then have "snd (ask_question w t query a log)
        = log @ [EvPersistentClient ''./chroma'', EvGetCollection ''chatbot_rag_collection'',
                    EvQuery [query] 5, EvGetenv ''GEMINI_API_KEY''] @ (r @ r')"
      using load by (simp add: ask_question_stages)
    then show ?thesis by blast
  qed
  have second: "ask_question w t' query a' log =
             (generate_content w k ''gemini-1.5-flash''
                (concat (map (fill query (escaped (concat passages)) (py_str (bind_parameter None a'))) t')),
              log @ pipeline_events k query
                (concat (map (fill query (escaped (concat passages)) (py_str (bind_parameter None a'))) t')))"
    if "getenv w ''GEMINI_API_KEY'' = Some k" "k \<noteq> []"
      "persistent_client w ''./chroma'' = Inr client"
      "get_collection client ''chatbot_rag_collection'' = Inr st"
      "embed_content w k ''models/embedding-001'' [query] ''retrieval_document'' ''Custom query'' = Inr embs"
      "nearest st embs 5 = Inr (passages # others)"
      "known_fields t'"
    for t' a'
    using that by (rule ask_question_prompt)
  have kq: "known_fields [Field ''query'']" and kl: "known_fields [Field ''current_location'']"
    by (simp_all add: known_fields_def)
  show ?thesis
    using first second [of t a] second [OF _ _ _ _ _ _ kq, of a]
      second [OF _ _ _ _ _ _ kl, of "Passed (Some l)"]
    by simp
qed

theorem ask_question_query_unchanged_witness:
  "known_fields stub_template
   \<and> (\<exists>rest. snd (ask_question (stub_world (Some ''key'') stub_documents echo_model) stub_template
          blank_query (Passed (Some blank_query)) []) =
        [EvPersistentClient ''./chroma'', EvGetCollection ''chatbot_rag_collection'',
         EvQuery [blank_query] 5, EvGetenv ''GEMINI_API_KEY''] @ rest)
   \<and> ask_question (stub_world (Some ''key'') stub_documents echo_model) stub_template
        blank_query (Passed (Some blank_query)) []
      = (Inr (''QUESTION: '' @ blank_query
              @ '' PASSAGE: BRTS stands for Bus Rapid Transit System.It started in Bhopal in 2013. LOCATION: ''
              @ blank_query),
         pipeline_events ''key'' blank_query
           (''QUESTION: '' @ blank_query
            @ '' PASSAGE: BRTS stands for Bus Rapid Transit System.It started in Bhopal in 2013. LOCATION: ''
            @ blank_query))
   \<and> ask_question (stub_world (Some ''key'') stub_documents echo_model) [Field ''query''] [] Omitted []
      = (Inr [], pipeline_events ''key'' [] [])"
proof -
  let ?w = "stub_world (Some ''key'') stub_documents echo_model"
  have known: "known_fields stub_template"
    by (simp add: known_fields_def stub_template_def)
  have esc: "escaped (concat stub_documents)
      = ''BRTS stands for Bus Rapid Transit System.It started in Bhopal in 2013.''"
    by (simp add: stub_documents_def escaped_def replace_def)
  have echo: "generate_content ?w ''key'' ''gemini-1.5-flash'' p = Inr p" for p
    by (simp add: stub_world_def echo_model_def)
  have loaded: "persistent_client ?w ''./chroma'' = Inr (stub_client stub_documents)
      \<and> get_collection (stub_client stub_documents) ''chatbot_rag_collection'' = Inr (stub_store stub_documents)"
    using stub_hyps [of "[]"] by blast
  note blank = ask_question_query_unchanged [where w = ?w and t = stub_template
      and query = blank_query and a = "Passed (Some blank_query)" and log = "[]" and k = "''key''"
      and client = "stub_client stub_documents" and st = "stub_store stub_documents"
      and embs = "[[1, 0]]" and passages = stub_documents and others = "[]"]
  note empty = ask_question_query_unchanged [where w = ?w and t = stub_template
      and query = "[]" and a = Omitted and log = "[]" and k = "''key''"
      and client = "stub_client stub_documents" and st = "stub_store stub_documents"
      and embs = "[[1, 0]]" and passages = stub_documents and others = "[]"]
  from blank [THEN conjunct1, THEN mp, OF loaded]
  have a: "\<exists>rest. snd (ask_question ?w stub_template blank_query (Passed (Some blank_query)) []) =
        [EvPersistentClient ''./chroma'', EvGetCollection ''chatbot_rag_collection'',
         EvQuery [blank_query] 5, EvGetenv ''GEMINI_API_KEY''] @ rest"
    by simp
  from blank [THEN conjunct2, THEN mp, OF stub_hyps, THEN conjunct1, THEN mp, OF known]
  have b: "ask_question ?w stub_template blank_query (Passed (Some blank_query)) []
      = (Inr (''QUESTION: '' @ blank_query
              @ '' PASSAGE: BRTS stands for Bus Rapid Transit System.It started in Bhopal in 2013. LOCATION: ''
              @ blank_query),
         pipeline_events ''key'' blank_query
           (''QUESTION: '' @ blank_query
            @ '' PASSAGE: BRTS stands for Bus Rapid Transit System.It started in Bhopal in 2013. LOCATION: ''
            @ blank_query))"
    by (simp add: esc echo stub_template_def)
  from empty [THEN conjunct2, THEN mp, OF stub_hyps, THEN conjunct2, THEN conjunct1]
  have c: "ask_question ?w [Field ''query''] [] Omitted [] = (Inr [], pipeline_events ''key'' [] [])"
    by (simp add: echo)
  from known a b c show ?thesis by blast
qed

text \<open>
  C10. A call of \<open>ask_question\<close> that leaves \<open>current_location\<close> out binds it to
  \<^verbatim>\<open>None\<close>, and the absent value gets no treatment of its own: it is rendered as the
  text "None". When retrieval succeeds, the prompt that such a call hands to the
  generation model is the template with every \<^verbatim>\<open>current_location\<close> field filled
  with "None" (the field is neither dropped nor left empty): for the template that is
  that field alone the prompt is "None". The call without the argument is the call that
  passes \<^verbatim>\<open>None\<close> and the call that passes the string "None".
\<close>

theorem absent_location_rendered_as_None:
  "bind_parameter None (Omitted :: (string option) argument) = None
   \<and> ask_question w t q Omitted = ask_question w t q (Passed None)
   \<and> ask_question w t q Omitted = ask_question w t q (Passed (Some ''None''))
   \<and> make_rag_prompt t q p None = make_rag_prompt t q p (Some ''None'')
   \<and> make_rag_prompt [Field ''current_location''] q p None = Inr ''None''
   \<and> (getenv w ''GEMINI_API_KEY'' = Some k \<and> k \<noteq> []
      \<and> persistent_client w ''./chroma'' = Inr client
      \<and> get_collection client ''chatbot_rag_collection'' = Inr st
      \<and> embed_content w k ''models/embedding-001'' [q] ''retrieval_document'' ''Custom query'' = Inr embs
      \<and> nearest st embs 5 = Inr (passages # others)
      \<longrightarrow>
        (known_fields t \<longrightarrow>
           ask_question w t q Omitted log =
             (generate_content w k ''gemini-1.5-flash''
                (concat (map (fill q (escaped (concat passages)) ''None'') t)),
              log @ pipeline_events k q (concat (map (fill q (escaped (concat passages)) ''None'') t))))
        \<and> ask_question w [Field ''current_location''] q Omitted log =
             (generate_content w k ''gemini-1.5-flash'' ''None'', log @ pipeline_events k q ''None''))"
proof -
  have e1: "bind_parameter None (Omitted :: (string option) argument) = None"
    by simp
  have e2: "ask_question w t q Omitted = ask_question w t q (Passed None)"
    by (simp add: ask_question_def)
  have e3: "ask_question w t q Omitted = ask_question w t q (Passed (Some ''None''))"
    by (simp add: ask_question_def generate_answer_def make_rag_prompt_def)
  have e4: "make_rag_prompt t q p None = make_rag_prompt t q p (Some ''None'')"
    by (simp add: make_rag_prompt_def)
  have e5: "make_rag_prompt [Field ''current_location''] q p None = Inr ''None''"
    by (simp add: make_rag_prompt_def)
  have run: "ask_question w t' q Omitted log =
             (generate_content w k ''gemini-1.5-flash''
                (concat (map (fill q (escaped (concat passages)) ''None'') t')),
              log @ pipeline_events k q (concat (map (fill q (escaped (concat passages)) ''None'') t')))"
    if "getenv w ''GEMINI_API_KEY'' = Some k" "k \<noteq> []"
      "persistent_client w ''./chroma'' = Inr client"
      "get_collection client ''chatbot_rag_collection'' = Inr st"
      "embed_content w k ''models/embedding-001'' [q] ''retrieval_document'' ''Custom query'' = Inr embs"
      "nearest st embs 5 = Inr (passages # others)"
      "known_fields t'"
    for t'
    using ask_question_prompt [OF that, of Omitted log] by simp
  have kl: "known_fields [Field ''current_location'']"
    by (simp add: known_fields_def)
  have cond: "getenv w ''GEMINI_API_KEY'' = Some k \<and> k \<noteq> []
      \<and> persistent_client w ''./chroma'' = Inr client
      \<and> get_collection client ''chatbot_rag_collection'' = Inr st
      \<and> embed_content w k ''models/embedding-001'' [q] ''retrieval_document'' ''Custom query'' = Inr embs
      \<and> nearest st embs 5 = Inr (passages # others)
      \<longrightarrow>
        (known_fields t \<longrightarrow>
           ask_question w t q Omitted log =
             (generate_content w k ''gemini-1.5-flash''
                (concat (map (fill q (escaped (concat passages)) ''None'') t)),
              log @ pipeline_events k q (concat (map (fill q (escaped (concat passages)) ''None'') t))))
        \<and> ask_question w [Field ''current_location''] q Omitted log =
             (generate_content w k ''gemini-1.5-flash'' ''None'', log @ pipeline_events k q ''None'')"
    using run [of t] run [OF _ _ _ _ _ _ kl]
    by simp
  show ?thesis
    by (intro conjI e1 e2 e3 e4 e5 cond)
qed

theorem absent_location_rendered_as_None_witness:
  "known_fields stub_template
   \<and> ask_question (stub_world (Some ''key'') stub_documents echo_model) stub_template
        ''What is BRTS?'' Omitted []
      = (Inr ''QUESTION: What is BRTS? PASSAGE: BRTS stands for Bus Rapid Transit System.It started in Bhopal in 2013. LOCATION: None'',
         pipeline_events ''key'' ''What is BRTS?''
           ''QUESTION: What is BRTS? PASSAGE: BRTS stands for Bus Rapid Transit System.It started in Bhopal in 2013. LOCATION: None'')
   \<and> ask_question (stub_world (Some ''key'') stub_documents echo_model) [Field ''current_location'']
        ''What is BRTS?'' Omitted []
      = (Inr ''None'', pipeline_events ''key'' ''What is BRTS?'' ''None'')"
proof -
  let ?w = "stub_world (Some ''key'') stub_documents echo_model"
  have known: "known_fields stub_template"
    by (simp add: known_fields_def stub_template_def)
  have esc: "escaped (concat stub_documents)
      = ''BRTS stands for Bus Rapid Transit System.It started in Bhopal in 2013.''"
    by (simp add: stub_documents_def escaped_def replace_def)
  have echo: "generate_content ?w ''key'' ''gemini-1.5-flash'' p = Inr p" for p
    by (simp add: stub_world_def echo_model_def)
  note inst = absent_location_rendered_as_None [where w = ?w and t = stub_template
      and q = "''What is BRTS?''" and log = "[]" and k = "''key''"
      and client = "stub_client stub_documents" and st = "stub_store stub_documents"
      and embs = "[[1, 0]]" and passages = stub_documents and others = "[]",
      THEN conjunct2, THEN conjunct2, THEN conjunct2, THEN conjunct2, THEN conjunct2,
      THEN mp, OF stub_hyps]
  from inst [THEN conjunct1, THEN mp, OF known]
  have a: "ask_question ?w stub_template ''What is BRTS?'' Omitted []
      = (Inr ''QUESTION: What is BRTS? PASSAGE: BRTS stands for Bus Rapid Transit System.It started in Bhopal in 2013. LOCATION: None'',
         pipeline_events ''key'' ''What is BRTS?''
           ''QUESTION: What is BRTS? PASSAGE: BRTS stands for Bus Rapid Transit System.It started in Bhopal in 2013. LOCATION: None'')"
    by (simp add: esc echo stub_template_def)
  from inst [THEN conjunct2]
  have b: "ask_question ?w [Field ''current_location''] ''What is BRTS?'' Omitted []
      = (Inr ''None'', pipeline_events ''key'' ''What is BRTS?'' ''None'')"
    by (simp add: echo)
  from known a b show ?thesis by blast
qed

end
